theory Spec2Isabelle
  imports Main "HOL-Library.Word" "HOL-Library.Sublist"
begin

section \<open>JavaScript data values\<close>

text \<open>
  A JavaScript string is a sequence of UTF-16 code units: \<^verbatim>\<open>length\<close>, \<^verbatim>\<open>split('')\<close> and
  \<^verbatim>\<open>charCodeAt\<close> all count and read 16-bit units, so a string is a list of 16-bit words.
  \<open>lit\<close> turns an ASCII literal of the source text into such a list.
\<close>

type_synonym jsstring = "16 word list"

definition lit :: "string \<Rightarrow> jsstring" where
  "lit s = map (\<lambda>c. of_nat (of_char c)) s"

text \<open>
  The values the functions can be handed. Numbers are the integer-valued ones; an object is
  an ordinary data object (its string conversion is the inherited one of
  \<^verbatim>\<open>Object.prototype\<close>) observed through the three properties the program reads,
  \<^verbatim>\<open>name\<close>, \<^verbatim>\<open>code\<close> and \<^verbatim>\<open>flag\<close>, a missing property being \<open>Undefined\<close>.
  Functions, symbols and objects that redefine their string conversion are outside the model.
\<close>

datatype jsval =
    Undefined
  | Null
  | Bool bool
  | Num int
  | Str jsstring
  | Arr "jsval list"
  | Obj (obj_name: jsval) (obj_code: jsval) (obj_flag: jsval)

datatype js_error =
    Error jsstring  \<comment> \<open>\<^verbatim>\<open>throw new Error(message)\<close>\<close>
  | TypeError
  | RangeError

text \<open>
  What the engine supplies and the repository does not contain: the Unicode case mappings of
  strings that hold a unit outside ASCII, and the printing of numbers beyond the safe
  integers. On ASCII strings and on safe integers the built-ins are modelled in full below.
\<close>

record host =
  upper_nonascii :: "jsstring \<Rightarrow> jsstring"
  lower_nonascii :: "jsstring \<Rightarrow> jsstring"
  number_unsafe :: "int \<Rightarrow> jsstring"

subsection \<open>Built-ins\<close>

definition is_ascii :: "16 word \<Rightarrow> bool" where
  "is_ascii u = (u < 0x80)"

definition ascii_upper :: "16 word \<Rightarrow> 16 word" where
  "ascii_upper u = (if 0x61 \<le> u \<and> u \<le> 0x7A then u - 0x20 else u)"

definition ascii_lower :: "16 word \<Rightarrow> 16 word" where
  "ascii_lower u = (if 0x41 \<le> u \<and> u \<le> 0x5A then u + 0x20 else u)"

definition toUpperCase :: "host \<Rightarrow> jsstring \<Rightarrow> jsstring" where
  "toUpperCase h s = (if list_all is_ascii s then map ascii_upper s else upper_nonascii h s)"

definition toLowerCase :: "host \<Rightarrow> jsstring \<Rightarrow> jsstring" where
  "toLowerCase h s = (if list_all is_ascii s then map ascii_lower s else lower_nonascii h s)"

text \<open>\<^verbatim>\<open>!value\<close> is \<open>\<not> truthy value\<close>.\<close>

fun truthy :: "jsval \<Rightarrow> bool" where
  "truthy Undefined = False"
| "truthy Null = False"
| "truthy (Bool b) = b"
| "truthy (Num n) = (n \<noteq> 0)"
| "truthy (Str s) = (s \<noteq> [])"
| "truthy (Arr xs) = True"
| "truthy (Obj n c f) = True"

fun typeof :: "jsval \<Rightarrow> jsstring" where
  "typeof Undefined = lit ''undefined''"
| "typeof Null = lit ''object''"
| "typeof (Bool b) = lit ''boolean''"
| "typeof (Num n) = lit ''number''"
| "typeof (Str s) = lit ''string''"
| "typeof (Arr xs) = lit ''object''"
| "typeof (Obj n c f) = lit ''object''"

fun isArray :: "jsval \<Rightarrow> bool" where
  "isArray (Arr xs) = True"
| "isArray v = False"

text \<open>
  Reading \<^verbatim>\<open>value.length\<close>: a TypeError on \<^verbatim>\<open>undefined\<close> and \<^verbatim>\<open>null\<close>, the number of
  units of a string, the number of elements of an array, \<^verbatim>\<open>undefined\<close> otherwise.
\<close>

fun get_length :: "jsval \<Rightarrow> js_error + jsval" where
  "get_length Undefined = Inl TypeError"
| "get_length Null = Inl TypeError"
| "get_length (Str s) = Inr (Num (int (length s)))"
| "get_length (Arr xs) = Inr (Num (int (length xs)))"
| "get_length v = Inr Undefined"

text \<open>
  Calling \<^verbatim>\<open>value.toUpperCase()\<close> or \<^verbatim>\<open>value.toLowerCase()\<close>: only strings have the method,
  on anything else the call is a TypeError.
\<close>

fun call_toUpperCase :: "host \<Rightarrow> jsval \<Rightarrow> js_error + jsstring" where
  "call_toUpperCase h (Str s) = Inr (toUpperCase h s)"
| "call_toUpperCase h v = Inl TypeError"

fun call_toLowerCase :: "host \<Rightarrow> jsval \<Rightarrow> js_error + jsstring" where
  "call_toLowerCase h (Str s) = Inr (toLowerCase h s)"
| "call_toLowerCase h v = Inl TypeError"

text \<open>
  \<^verbatim>\<open>a === b\<close> where one side is a primitive: equal values of the same type. Two objects are
  equal only as the same reference, which a value model does not track; the program compares
  against numbers and strings only.
\<close>

fun is_primitive :: "jsval \<Rightarrow> bool" where
  "is_primitive (Arr xs) = False"
| "is_primitive (Obj n c f) = False"
| "is_primitive v = True"

definition strict_equals :: "jsval \<Rightarrow> jsval \<Rightarrow> bool" where
  "strict_equals a b = (is_primitive a \<and> a = b)"

text \<open>Decimal digits of a natural number, and \<^verbatim>\<open>Number::toString\<close> on integers.\<close>

fun digits :: "nat \<Rightarrow> jsstring" where
  "digits n = (if n < 10 then [of_nat (48 + n)] else digits (n div 10) @ [of_nat (48 + n mod 10)])"

declare digits.simps [simp del]

definition decimal :: "int \<Rightarrow> jsstring" where
  "decimal n = (if n < 0 then lit ''-'' @ digits (nat (- n)) else digits (nat n))"

definition number_to_string :: "host \<Rightarrow> int \<Rightarrow> jsstring" where
  "number_to_string h n =
     (if \<bar>n\<bar> \<le> 9007199254740991 then decimal n else number_unsafe h n)"

text \<open>\<^verbatim>\<open>Array.prototype.join\<close> on strings already converted.\<close>

fun join :: "jsstring \<Rightarrow> jsstring list \<Rightarrow> jsstring" where
  "join sep [] = []"
| "join sep [x] = x"
| "join sep (x # y # ys) = x @ sep @ join sep (y # ys)"

text \<open>
  The string conversion a template literal applies to \<^verbatim>\<open>${value}\<close>. An array joins its
  elements with commas, \<^verbatim>\<open>undefined\<close> and \<^verbatim>\<open>null\<close> elements giving the empty string.
\<close>

fun ToString :: "host \<Rightarrow> jsval \<Rightarrow> jsstring" where
  "ToString h Undefined = lit ''undefined''"
| "ToString h Null = lit ''null''"
| "ToString h (Bool b) = (if b then lit ''true'' else lit ''false'')"
| "ToString h (Num n) = number_to_string h n"
| "ToString h (Str s) = s"
| "ToString h (Arr xs) =
     join (lit '','')
       (map (\<lambda>v. if v = Undefined \<or> v = Null then [] else ToString h v) xs)"
| "ToString h (Obj n c f) = lit ''[object Object]''"

text \<open>
  \<^verbatim>\<open>String.fromCodePoint\<close>: a RangeError above U+10FFFF, one unit for a code point of the
  basic plane, a surrogate pair above it.
\<close>

definition utf16 :: "nat \<Rightarrow> jsstring" where
  "utf16 cp =
     (if cp \<le> 0xFFFF then [of_nat cp]
      else [of_nat (0xD800 + (cp - 0x10000) div 0x400), of_nat (0xDC00 + (cp - 0x10000) mod 0x400)])"

fun fromCodePoint :: "nat list \<Rightarrow> js_error + jsstring" where
  "fromCodePoint [] = Inr []"
| "fromCodePoint (cp # cps) =
     (if cp > 0x10FFFF then Inl RangeError
      else case fromCodePoint cps of Inl e \<Rightarrow> Inl e | Inr r \<Rightarrow> Inr (utf16 cp @ r))"

text \<open>\<^verbatim>\<open>array.map(f)\<close> with a callback that may throw: the first exception ends the call.\<close>

fun map_result :: "('a \<Rightarrow> 'e + 'b) \<Rightarrow> 'a list \<Rightarrow> 'e + 'b list" where
  "map_result f [] = Inr []"
| "map_result f (x # xs) =
     (case f x of
        Inl e \<Rightarrow> Inl e
      | Inr y \<Rightarrow> (case map_result f xs of Inl e \<Rightarrow> Inl e | Inr ys \<Rightarrow> Inr (y # ys)))"

section \<open>The program\<close>

subsection \<open>getFlagEmoji\<close>

text \<open>
  The guard is evaluated left to right and stops at the first disjunct that holds, so
  \<^verbatim>\<open>code.length\<close> is read only of a truthy string. \<^verbatim>\<open>split('')\<close> gives one string per
  code unit and \<^verbatim>\<open>charCodeAt()\<close> reads that unit.
\<close>

definition getFlagEmoji :: "host \<Rightarrow> jsval \<Rightarrow> js_error + jsstring" where
  "getFlagEmoji h code =
     (if \<not> truthy code then Inr []
      else if typeof code \<noteq> lit ''string'' then Inr []
      else case get_length code of
        Inl e \<Rightarrow> Inl e
      | Inr n \<Rightarrow>
          if \<not> strict_equals n (Num 2) then Inr []
          else (case call_toUpperCase h code of
                  Inl e \<Rightarrow> Inl e
                | Inr upper \<Rightarrow> fromCodePoint (map (\<lambda>char. 127397 + unat char) upper)))"

subsection \<open>getFlagImageUrl\<close>

text \<open>The default \<^verbatim>\<open>width = 40\<close> applies when the argument is \<^verbatim>\<open>undefined\<close>.\<close>

definition getFlagImageUrl :: "host \<Rightarrow> jsval \<Rightarrow> jsval \<Rightarrow> js_error + jsstring" where
  "getFlagImageUrl h code width_arg =
     (let width = (if width_arg = Undefined then Num 40 else width_arg) in
      if \<not> truthy code then Inr []
      else if typeof code \<noteq> lit ''string'' then Inr []
      else case get_length code of
        Inl e \<Rightarrow> Inl e
      | Inr n \<Rightarrow>
          if \<not> strict_equals n (Num 2) then Inr []
          else (case call_toLowerCase h code of
                  Inl e \<Rightarrow> Inl e
                | Inr lower \<Rightarrow>
                    Inr (lit ''https://flagcdn.com/w'' @ ToString h width @ lit ''/'' @ lower
                         @ lit ''.png'')))"

subsection \<open>getCountrySelectHTML\<close>

text \<open>
  The options object, well-formed: each recognised option is absent (\<open>None\<close>, which also
  stands for \<^verbatim>\<open>undefined\<close>) or has the type the documentation gives it. The options argument
  itself may be absent; destructuring fills in the defaults.
\<close>

record render_options =
  opt_id :: "jsstring option"
  opt_name :: "jsstring option"
  opt_className :: "jsstring option"
  opt_selectedCode :: "jsstring option"
  opt_useImageFlags :: "bool option"
  opt_flagWidth :: "int option"

definition empty_options :: render_options where
  "empty_options =
     \<lparr>opt_id = None, opt_name = None, opt_className = None, opt_selectedCode = None,
      opt_useImageFlags = None, opt_flagWidth = None\<rparr>"

definition or_default :: "'a option \<Rightarrow> 'a \<Rightarrow> 'a" where
  "or_default v d = (case v of None \<Rightarrow> d | Some x \<Rightarrow> x)"

text \<open>
  The callback of \<^verbatim>\<open>countries.map\<close>. Destructuring \<^verbatim>\<open>{ code, name, flag }\<close> out of
  \<^verbatim>\<open>undefined\<close> or \<^verbatim>\<open>null\<close> is a TypeError; any other value that lacks a property gives
  \<^verbatim>\<open>undefined\<close> for it.
\<close>

fun nullish :: "jsval \<Rightarrow> bool" where
  "nullish Undefined = True"
| "nullish Null = True"
| "nullish v = False"

fun get_code :: "jsval \<Rightarrow> jsval" where
  "get_code (Obj n c f) = c"
| "get_code v = Undefined"

fun get_name :: "jsval \<Rightarrow> jsval" where
  "get_name (Obj n c f) = n"
| "get_name v = Undefined"

fun get_flag :: "jsval \<Rightarrow> jsval" where
  "get_flag (Obj n c f) = f"
| "get_flag v = Undefined"

definition option_html :: "host \<Rightarrow> jsstring \<Rightarrow> bool \<Rightarrow> int \<Rightarrow> jsval \<Rightarrow> js_error + jsstring" where
  \<open>option_html h selectedCode useImageFlags flagWidth country =
     (if nullish country then Inl TypeError
      else
        let code = get_code country; name = get_name country; flag = get_flag country;
            selected = (if strict_equals code (Str selectedCode) then lit '' selected'' else [])
        in
          if useImageFlags then
            (case getFlagImageUrl h code (Num flagWidth) of
               Inl e \<Rightarrow> Inl e
             | Inr flagUrl \<Rightarrow>
                 let flagDisplay =
                       lit ''<img src="'' @ flagUrl @ lit ''" alt="'' @ ToString h code
                       @ lit ''" style="vertical-align: middle; margin-right: 5px; width: ''
                       @ ToString h (Num flagWidth) @ lit ''px;">''
                 in Inr (lit ''<option value="'' @ ToString h code @ lit ''"'' @ selected
                         @ lit ''>'' @ flagDisplay @ ToString h name @ lit ''</option>''))
          else
            let flagDisplay = ToString h flag @ lit '' ''
            in Inr (lit ''<option value="'' @ ToString h code @ lit ''"'' @ selected
                    @ lit ''>'' @ flagDisplay @ ToString h name @ lit ''</option>''))\<close>

text \<open>The line feed of the template literals, and the final template.\<close>

definition LF :: jsstring where
  "LF = [0x0A]"

definition select_html :: "jsstring \<Rightarrow> jsstring \<Rightarrow> jsstring \<Rightarrow> jsstring \<Rightarrow> jsstring" where
  \<open>select_html id_attr name_attr className optionsHTML =
     lit ''<select id="'' @ id_attr @ lit ''" name="'' @ name_attr @ lit ''" class="''
     @ className @ lit ''">'' @ LF @ lit ''  '' @ optionsHTML @ LF @ lit ''</select>''\<close>

definition getCountrySelectHTML ::
  "host \<Rightarrow> jsval \<Rightarrow> render_options option \<Rightarrow> js_error + jsstring" where
  "getCountrySelectHTML h countries options_arg =
     (if \<not> isArray countries then Inl (Error (lit ''Countries must be an array''))
      else
        let options = or_default options_arg empty_options;
            id_attr = or_default (opt_id options) (lit ''country-select'');
            name_attr = or_default (opt_name options) (lit ''country'');
            className = or_default (opt_className options) [];
            selectedCode = or_default (opt_selectedCode options) [];
            useImageFlags = or_default (opt_useImageFlags options) True;
            flagWidth = or_default (opt_flagWidth options) 40
        in case countries of
             Arr cs \<Rightarrow>
               (case map_result (option_html h selectedCode useImageFlags flagWidth) cs of
                  Inl e \<Rightarrow> Inl e
                | Inr opts \<Rightarrow>
                    Inr (select_html id_attr name_attr className (join (LF @ lit ''  '') opts)))
           | _ \<Rightarrow> Inl TypeError)"  \<comment> \<open>no \<^verbatim>\<open>map\<close> method; not reached behind the check\<close>

subsection \<open>getAllCountries and getCountrySelect\<close>

text \<open>
  The country table of \<^verbatim>\<open>countries.js\<close> is a fixed list of name and code pairs; it is a
  parameter here.
\<close>

record country =
  country_name :: jsstring
  country_code :: jsstring

definition getAllCountries :: "host \<Rightarrow> country list \<Rightarrow> js_error + jsval list" where
  "getAllCountries h countries =
     map_result
       (\<lambda>c. case getFlagEmoji h (Str (country_code c)) of
               Inl e \<Rightarrow> Inl e
             | Inr flag \<Rightarrow> Inr (Obj (Str (country_name c)) (Str (country_code c)) (Str flag)))
       countries"

text \<open>The default \<^verbatim>\<open>options = {}\<close> is filled in before the call is passed on.\<close>

definition getCountrySelect ::
  "host \<Rightarrow> country list \<Rightarrow> render_options option \<Rightarrow> js_error + jsstring" where
  "getCountrySelect h countries options_arg =
     (let options = or_default options_arg empty_options in
      case getAllCountries h countries of
        Inl e \<Rightarrow> Inl e
      | Inr all_countries \<Rightarrow> getCountrySelectHTML h (Arr all_countries) (Some options))"

section \<open>What the specification speaks of\<close>

text \<open>
  The thin wrapper as the specification words it: \<^verbatim>\<open>renderCountrySelect\<close> applied to
  \<^verbatim>\<open>listCountries()\<close> and the options as given.
\<close>

definition spec_getCountrySelect ::
  "host \<Rightarrow> country list \<Rightarrow> render_options option \<Rightarrow> js_error + jsstring" where
  "spec_getCountrySelect h countries options_arg =
     (case getAllCountries h countries of
        Inl e \<Rightarrow> Inl e
      | Inr all_countries \<Rightarrow> getCountrySelectHTML h (Arr all_countries) options_arg)"

text \<open>
  An element's start tag runs up to its first \<^verbatim>\<open>>\<close>; it has an attribute when the attribute's
  name, after a space and before \<^verbatim>\<open>=\<close>, occurs in it.
\<close>

definition start_tag :: "jsstring \<Rightarrow> jsstring" where
  "start_tag html = takeWhile (\<lambda>u. u \<noteq> 0x3E) html"

definition has_attribute :: "jsstring \<Rightarrow> jsstring \<Rightarrow> bool" where
  "has_attribute attr html = sublist (lit '' '' @ attr @ lit ''='') (start_tag html)"

text \<open>
  The attribute names of a start tag, read the way an HTML tokeniser reads them: after the
  element name come attributes separated by white space, each a name that ends at white
  space, \<^verbatim>\<open>/\<close>, \<^verbatim>\<open>=\<close> or \<^verbatim>\<open>>\<close>, with an optional value that is quoted (and then runs to the
  matching quote) or unquoted; names are lower-cased; the tag ends at the first \<^verbatim>\<open>>\<close> outside
  a quoted value, and a tag that never ends has no attributes.
\<close>

datatype tag_state =
    BeforeName
  | InName jsstring
  | AfterName
  | BeforeValue
  | InQuoted "16 word"
  | InUnquoted

definition is_space :: "16 word \<Rightarrow> bool" where
  "is_space u = (u = 0x20 \<or> u = 0x09 \<or> u = 0x0A \<or> u = 0x0C \<or> u = 0x0D)"

fun scan_attributes :: "tag_state \<Rightarrow> jsstring list \<Rightarrow> jsstring \<Rightarrow> jsstring list" where
  "scan_attributes st names [] = []"
| "scan_attributes BeforeName names (u # us) =
     (if u = 0x3E then names
      else if is_space u \<or> u = 0x2F then scan_attributes BeforeName names us
      else scan_attributes (InName [ascii_lower u]) names us)"
| "scan_attributes (InName n) names (u # us) =
     (if u = 0x3E then names @ [n]
      else if is_space u then scan_attributes AfterName (names @ [n]) us
      else if u = 0x2F then scan_attributes BeforeName (names @ [n]) us
      else if u = 0x3D then scan_attributes BeforeValue (names @ [n]) us
      else scan_attributes (InName (n @ [ascii_lower u])) names us)"
| "scan_attributes AfterName names (u # us) =
     (if u = 0x3E then names
      else if is_space u then scan_attributes AfterName names us
      else if u = 0x2F then scan_attributes BeforeName names us
      else if u = 0x3D then scan_attributes BeforeValue names us
      else scan_attributes (InName [ascii_lower u]) names us)"
| "scan_attributes BeforeValue names (u # us) =
     (if u = 0x3E then names
      else if is_space u then scan_attributes BeforeValue names us
      else if u = 0x22 \<or> u = 0x27 then scan_attributes (InQuoted u) names us
      else scan_attributes InUnquoted names us)"
| "scan_attributes (InQuoted q) names (u # us) =
     (if u = q then scan_attributes BeforeName names us
      else scan_attributes (InQuoted q) names us)"
| "scan_attributes InUnquoted names (u # us) =
     (if u = 0x3E then names
      else if is_space u then scan_attributes BeforeName names us
      else scan_attributes InUnquoted names us)"

definition ends_tag_name :: "16 word \<Rightarrow> bool" where
  "ends_tag_name u = (is_space u \<or> u = 0x2F \<or> u = 0x3E)"

definition tag_name :: "jsstring \<Rightarrow> jsstring" where
  "tag_name html =
     (case html of
        [] \<Rightarrow> []
      | u # us \<Rightarrow> if u = 0x3C then map ascii_lower (takeWhile (\<lambda>u. \<not> ends_tag_name u) us) else [])"

definition tag_attributes :: "jsstring \<Rightarrow> jsstring list" where
  "tag_attributes html =
     (case html of
        [] \<Rightarrow> []
      | u # us \<Rightarrow>
          if u = 0x3C then scan_attributes BeforeName [] (dropWhile (\<lambda>u. \<not> ends_tag_name u) us)
          else [])"

text \<open>
  A piece of markup is an \<^verbatim>\<open>option\<close> element that carries the \<^verbatim>\<open>selected\<close> attribute when
  it begins with an \<^verbatim>\<open>option\<close> start tag among whose attributes is \<^verbatim>\<open>selected\<close>.
\<close>

definition carries_selected :: "jsstring \<Rightarrow> bool" where
  "carries_selected option_markup =
     (tag_name option_markup = lit ''option''
      \<and> lit ''selected'' \<in> set (tag_attributes option_markup))"

text \<open>
  Nothing is escaped, so the attribute value \<^verbatim>\<open>value="..."\<close> ends where the code says it does
  only when the code, as text, holds no double quote.
\<close>

definition quote_free :: "jsstring \<Rightarrow> bool" where
  "quote_free s = (0x22 \<notin> set s)"

subsection \<open>Sample data\<close>

text \<open>
  An engine to run examples on. Beyond ASCII it upper-cases U+00DF to the two units of
  \<^verbatim>\<open>SS\<close>, as the Unicode special casing that \<^verbatim>\<open>String.prototype.toUpperCase\<close> follows
  prescribes; no example depends on its other values.
\<close>

definition sample_host :: host where
  "sample_host =
     \<lparr>upper_nonascii =
        (\<lambda>s. concat (map (\<lambda>u. if u = 0xDF then [0x53, 0x53] else [ascii_upper u]) s)),
      lower_nonascii = map ascii_lower,
      number_unsafe = decimal\<rparr>"

text \<open>
  Two entries of the country list, Afghanistan and the Aland Islands (the name begins with
  U+00C5), with their flags as surrogate pairs.
\<close>

definition sample_countries :: "jsval list" where
  "sample_countries =
     [Obj (Str (lit ''Afghanistan'')) (Str (lit ''AF'')) (Str [0xD83C, 0xDDE6, 0xD83C, 0xDDEB]),
      Obj (Str (0xC5 # lit ''land Islands'')) (Str (lit ''AX''))
        (Str [0xD83C, 0xDDE6, 0xD83C, 0xDDFD])]"

text \<open>The same list twice over, so that every code occurs in two entries.\<close>

definition duplicated_countries :: "jsval list" where
  "duplicated_countries = sample_countries @ sample_countries"

section \<open>Properties of the built-ins\<close>

lemma typeof_string_iff: "typeof v = lit ''string'' \<longleftrightarrow> (\<exists>s. v = Str s)"
  by (cases v) (simp_all add: lit_def)

lemma strict_equals_Str: "strict_equals v (Str s) \<longleftrightarrow> v = Str s"
  by (auto simp: strict_equals_def)

text \<open>Every code unit plus the offset is a code point \<^verbatim>\<open>String.fromCodePoint\<close> accepts.\<close>

lemma unit_code_point_in_range: "127397 + unat (u :: 16 word) \<le> 0x10FFFF"
proof -
  have "unat u < 2 ^ 16"
    using unsigned_less [of u] by simp
  then show ?thesis by simp
qed

lemma fromCodePoint_in_range:
  "list_all (\<lambda>cp. cp \<le> 0x10FFFF) cps \<Longrightarrow> fromCodePoint cps = Inr (concat (map utf16 cps))"
  by (induction cps) simp_all

lemma fromCodePoint_units:
  "fromCodePoint (map (\<lambda>char. 127397 + unat char) (s :: jsstring)) =
     Inr (concat (map (\<lambda>u. utf16 (127397 + unat u)) s))"
proof -
  have "list_all (\<lambda>cp. cp \<le> 0x10FFFF) (map (\<lambda>char. 127397 + unat char) s)"
    by (simp add: list_all_iff unit_code_point_in_range del: unsigned_less)
  then show ?thesis
    by (simp add: fromCodePoint_in_range comp_def)
qed

section \<open>The flag emoji encoder and the image address builder\<close>

lemma getFlagEmoji_Str:
  "getFlagEmoji h (Str s) =
     (if length s = 2 then fromCodePoint (map (\<lambda>char. 127397 + unat char) (toUpperCase h s))
      else Inr [])"
  by (auto simp: getFlagEmoji_def strict_equals_def)

lemma getFlagEmoji_not_Str: "(\<And>s. code \<noteq> Str s) \<Longrightarrow> getFlagEmoji h code = Inr []"
  by (simp add: getFlagEmoji_def typeof_string_iff)

lemma getFlagImageUrl_Str:
  "getFlagImageUrl h (Str s) width =
     (if length s = 2
      then Inr (lit ''https://flagcdn.com/w''
                @ ToString h (if width = Undefined then Num 40 else width)
                @ lit ''/'' @ toLowerCase h s @ lit ''.png'')
      else Inr [])"
  by (auto simp: getFlagImageUrl_def strict_equals_def Let_def)

lemma getFlagImageUrl_not_Str:
  "(\<And>s. code \<noteq> Str s) \<Longrightarrow> getFlagImageUrl h code width = Inr []"
  by (simp add: getFlagImageUrl_def typeof_string_iff Let_def)

lemma getFlagImageUrl_returns: "\<exists>url. getFlagImageUrl h code width = Inr url"
  by (cases "\<exists>s. code = Str s") (auto simp: getFlagImageUrl_Str getFlagImageUrl_not_Str)

text \<open>
  C1 (as amended). On \<^verbatim>\<open>"US"\<close> the encoder returns \<^verbatim>\<open>String.fromCodePoint(127482, 127480)\<close>,
  the regional indicators U and S, which are the four units D83C DDFA D83C DDF8, whatever
  the engine.
\<close>

theorem getFlagEmoji_US:
  "getFlagEmoji h (Str (lit ''US'')) = fromCodePoint [127482, 127480]
   \<and> getFlagEmoji h (Str (lit ''US'')) = Inr [0xD83C, 0xDDFA, 0xD83C, 0xDDF8]"
  by (simp add: getFlagEmoji_Str lit_def toUpperCase_def is_ascii_def ascii_upper_def utf16_def)

text \<open>
  C1 as stated fails: the result on \<^verbatim>\<open>"US"\<close> is not \<^verbatim>\<open>String.fromCodePoint(127464, 127482)\<close>,
  which is the pair of regional indicators C and U.
\<close>

theorem getFlagEmoji_US_is_not_CU:
  "getFlagEmoji sample_host (Str (lit ''US'')) \<noteq> fromCodePoint [127464, 127482]"
  by (simp add: getFlagEmoji_Str lit_def toUpperCase_def is_ascii_def ascii_upper_def utf16_def)

text \<open>
  C4 (as amended). For every string of two code units the encoder upper-cases the code, adds
  127397 to each code unit of the upper-cased code and returns the concatenation of the
  resulting code points, without raising. When the code is ASCII these are exactly two code
  points, those of its two upper-cased characters.
\<close>

theorem getFlagEmoji_two_units:
  assumes "length s = 2"
  shows "getFlagEmoji h (Str s) =
           fromCodePoint (map (\<lambda>char. 127397 + unat char) (toUpperCase h s))
    \<and> getFlagEmoji h (Str s) =
           Inr (concat (map (\<lambda>u. utf16 (127397 + unat u)) (toUpperCase h s)))
    \<and> (list_all is_ascii s \<longrightarrow>
         getFlagEmoji h (Str s) =
           Inr (utf16 (127397 + unat (ascii_upper (s ! 0)))
                @ utf16 (127397 + unat (ascii_upper (s ! 1)))))"
proof (intro conjI impI)
  show call: "getFlagEmoji h (Str s) =
      fromCodePoint (map (\<lambda>char. 127397 + unat char) (toUpperCase h s))"
    using assms by (simp add: getFlagEmoji_Str)
  then show units: "getFlagEmoji h (Str s) =
      Inr (concat (map (\<lambda>u. utf16 (127397 + unat u)) (toUpperCase h s)))"
    by (simp only: fromCodePoint_units)
  assume ascii: "list_all is_ascii s"
  from assms obtain a b where s: "s = [a, b]"
    by (cases s; cases "tl s") auto
  from ascii have "toUpperCase h s = [ascii_upper a, ascii_upper b]"
    by (simp add: toUpperCase_def s)
  with units show "getFlagEmoji h (Str s) =
      Inr (utf16 (127397 + unat (ascii_upper (s ! 0)))
           @ utf16 (127397 + unat (ascii_upper (s ! 1))))"
    by (simp add: s)
qed

text \<open>On the lower-case code \<^verbatim>\<open>"in"\<close> this gives the regional indicators I and N.\<close>

theorem getFlagEmoji_two_units_witness:
  "length (lit ''in'') = 2 \<and> list_all is_ascii (lit ''in'') \<and>
   getFlagEmoji sample_host (Str (lit ''in'')) = Inr [0xD83C, 0xDDEE, 0xD83C, 0xDDF3]"
proof -
  have len: "length (lit ''in'') = 2"
    by (simp add: lit_def)
  have ascii: "list_all is_ascii (lit ''in'')"
    by (simp add: lit_def is_ascii_def)
  from getFlagEmoji_two_units [OF len, of sample_host] ascii
  have "getFlagEmoji sample_host (Str (lit ''in'')) =
      Inr (utf16 (127397 + unat (ascii_upper (lit ''in'' ! 0)))
           @ utf16 (127397 + unat (ascii_upper (lit ''in'' ! 1))))"
    by blast
  also have "\<dots> = Inr [0xD83C, 0xDDEE, 0xD83C, 0xDDF3]"
    by (simp add: lit_def ascii_upper_def utf16_def)
  finally show ?thesis
    using len ascii by simp
qed

text \<open>
  C4 as stated fails: the two-unit code U+00DF, \<^verbatim>\<open>1\<close> upper-cases to the three units of
  \<^verbatim>\<open>SS1\<close>, and the encoder returns three code points, not two.
\<close>

theorem getFlagEmoji_sharp_s_three_code_points:
  "length [0xDF, 0x31 :: 16 word] = 2
   \<and> length (toUpperCase sample_host [0xDF, 0x31]) = 3
   \<and> getFlagEmoji sample_host (Str [0xDF, 0x31]) = fromCodePoint [127480, 127480, 127446]"
  by (simp add: getFlagEmoji_Str toUpperCase_def is_ascii_def sample_host_def ascii_upper_def
      utf16_def)

text \<open>
  C5. Whatever is not a string of exactly two code units (\<^verbatim>\<open>undefined\<close> and \<^verbatim>\<open>null\<close>
  included) makes both the encoder and the address builder return the empty string; neither
  raises.
\<close>

theorem soft_failure_empty_string:
  "\<not> (\<exists>s. code = Str s \<and> length s = 2) \<Longrightarrow>
   getFlagEmoji h code = Inr [] \<and> getFlagImageUrl h code width = Inr []"
  by (cases "\<exists>s. code = Str s")
    (auto simp: getFlagEmoji_Str getFlagImageUrl_Str getFlagEmoji_not_Str
      getFlagImageUrl_not_Str)

theorem soft_failure_empty_string_witness:
  "\<not> (\<exists>s. Str (lit ''XXX'') = Str s \<and> length s = 2)
   \<and> getFlagEmoji sample_host (Str (lit ''XXX'')) = Inr []
   \<and> getFlagImageUrl sample_host (Str (lit ''XXX'')) (Num 10) = Inr []
   \<and> getFlagEmoji sample_host Null = Inr []
   \<and> getFlagImageUrl sample_host Undefined Undefined = Inr []"
  using soft_failure_empty_string [of "Str (lit ''XXX'')" sample_host "Num 10"]
    soft_failure_empty_string [of Null sample_host Undefined]
    soft_failure_empty_string [of Undefined sample_host Undefined]
  by (simp add: lit_def)

text \<open>
  C6. For every string of two code units and every width the address builder returns
  \<^verbatim>\<open>https://flagcdn.com/w\<close>, the width converted to a string as it is (40 when absent),
  \<^verbatim>\<open>/\<close>, the lower-cased code and \<^verbatim>\<open>.png\<close>; so for \<^verbatim>\<open>("GB", 80)\<close>, for \<^verbatim>\<open>("gb")\<close> and, the
  width being neither checked nor clamped, for \<^verbatim>\<open>("GB", -5)\<close>.
\<close>

theorem getFlagImageUrl_shape:
  "getFlagImageUrl h (Str [a, b]) width =
     Inr (lit ''https://flagcdn.com/w''
          @ ToString h (if width = Undefined then Num 40 else width)
          @ lit ''/'' @ toLowerCase h [a, b] @ lit ''.png'')
   \<and> getFlagImageUrl h (Str (lit ''GB'')) (Num 80) = Inr (lit ''https://flagcdn.com/w80/gb.png'')
   \<and> getFlagImageUrl h (Str (lit ''gb'')) Undefined = Inr (lit ''https://flagcdn.com/w40/gb.png'')
   \<and> getFlagImageUrl h (Str (lit ''GB'')) (Num (- 5)) = Inr (lit ''https://flagcdn.com/w-5/gb.png'')"
  by (simp add: getFlagImageUrl_Str lit_def toLowerCase_def is_ascii_def ascii_lower_def
      number_to_string_def decimal_def digits.simps)

section \<open>The markup renderer\<close>

lemma option_html_nullish:
  "nullish c \<Longrightarrow> option_html h sel img w c = Inl TypeError"
  by (simp add: option_html_def)

lemma option_html_returns:
  assumes "\<not> nullish c"
  shows \<open>\<exists>rest. option_html h sel img w c =
           Inr (lit ''<option value="'' @ ToString h (get_code c) @ lit ''"''
                @ (if get_code c = Str sel then lit '' selected'' else [])
                @ lit ''>'' @ rest)\<close>
proof -
  obtain url where "getFlagImageUrl h (get_code c) (Num w) = Inr url"
    using getFlagImageUrl_returns by blast
  with assms show ?thesis
    by (simp add: option_html_def Let_def strict_equals_Str)
qed

lemma map_result_returns:
  "(\<And>x. x \<in> set xs \<Longrightarrow> \<exists>y. f x = Inr y) \<Longrightarrow>
   \<exists>ys. map_result f xs = Inr ys \<and> length ys = length xs
        \<and> (\<forall>i<length xs. f (xs ! i) = Inr (ys ! i))"
proof (induction xs)
  case Nil
  then show ?case by simp
next
  case (Cons x xs)
  then obtain y where y: "f x = Inr y" by auto
  from Cons obtain ys where ys: "map_result f xs = Inr ys" "length ys = length xs"
    "\<forall>i<length xs. f (xs ! i) = Inr (ys ! i)" by auto
  have "\<forall>i<length (x # xs). f ((x # xs) ! i) = Inr ((y # ys) ! i)"
    using y ys(3) by (auto simp: nth_Cons split: nat.splits)
  with y ys show ?case by simp
qed

lemma map_result_raises:
  assumes "\<And>x. x \<in> set xs \<Longrightarrow> f x = Inl e \<or> (\<exists>y. f x = Inr y)"
    and "\<exists>x\<in>set xs. f x = Inl e"
  shows "map_result f xs = Inl e"
  using assms
proof (induction xs)
  case Nil
  then show ?case by simp
next
  case (Cons x xs)
  show ?case
  proof (cases "f x")
    case (Inl e')
    with Cons.prems(1) [of x] show ?thesis by simp
  next
    case (Inr y)
    with Cons.prems(2) have "\<exists>x\<in>set xs. f x = Inl e" by auto
    with Cons.IH Cons.prems(1) have "map_result f xs = Inl e" by auto
    with Inr show ?thesis by simp
  qed
qed

lemma options_html_returns:
  assumes "\<not> list_ex nullish cs"
  shows "\<exists>opts. map_result (option_html h sel img w) cs = Inr opts \<and> length opts = length cs
           \<and> (\<forall>i<length cs. option_html h sel img w (cs ! i) = Inr (opts ! i))"
proof (rule map_result_returns)
  fix c assume "c \<in> set cs"
  with assms have "\<not> nullish c" by (auto simp: list_ex_iff)
  from option_html_returns [OF this] show "\<exists>y. option_html h sel img w c = Inr y" by blast
qed

lemma options_html_raises:
  assumes "list_ex nullish cs"
  shows "map_result (option_html h sel img w) cs = Inl TypeError"
proof (rule map_result_raises)
  fix c
  show "option_html h sel img w c = Inl TypeError \<or> (\<exists>y. option_html h sel img w c = Inr y)"
    using option_html_nullish [of c] option_html_returns [of c] by (cases "nullish c") blast+
next
  from assms obtain c where "c \<in> set cs" "nullish c"
    by (auto simp: list_ex_iff)
  then show "\<exists>c\<in>set cs. option_html h sel img w c = Inl TypeError"
    using option_html_nullish by blast
qed

lemma getCountrySelectHTML_Arr:
  "getCountrySelectHTML h (Arr cs) options =
     (case map_result
             (option_html h (or_default (opt_selectedCode (or_default options empty_options)) [])
                (or_default (opt_useImageFlags (or_default options empty_options)) True)
                (or_default (opt_flagWidth (or_default options empty_options)) 40)) cs of
        Inl e \<Rightarrow> Inl e
      | Inr opts \<Rightarrow>
          Inr (select_html (or_default (opt_id (or_default options empty_options)) (lit ''country-select''))
                 (or_default (opt_name (or_default options empty_options)) (lit ''country''))
                 (or_default (opt_className (or_default options empty_options)) [])
                 (join (LF @ lit ''  '') opts)))"
  by (simp add: getCountrySelectHTML_def Let_def)

lemma getCountrySelectHTML_not_Arr:
  "\<not> isArray countries \<Longrightarrow>
   getCountrySelectHTML h countries options = Inl (Error (lit ''Countries must be an array''))"
  by (simp add: getCountrySelectHTML_def)

lemma getCountrySelectHTML_default_options:
  "getCountrySelectHTML h countries None = getCountrySelectHTML h countries (Some empty_options)"
  by (simp add: getCountrySelectHTML_def or_default_def)

lemma getCountrySelectHTML_raises:
  "list_ex nullish cs \<Longrightarrow> getCountrySelectHTML h (Arr cs) options_arg = Inl TypeError"
  by (simp add: getCountrySelectHTML_Arr options_html_raises)

lemma getCountrySelectHTML_returns:
  assumes "\<not> list_ex nullish cs"
  shows "\<exists>out. getCountrySelectHTML h (Arr cs) options_arg = Inr out"
proof -
  let ?options = "or_default options_arg empty_options"
  from options_html_returns [OF assms]
  obtain opts where
    "map_result
       (option_html h (or_default (opt_selectedCode ?options) [])
          (or_default (opt_useImageFlags ?options) True)
          (or_default (opt_flagWidth ?options) 40)) cs = Inr opts"
    by blast
  then show ?thesis
    by (simp add: getCountrySelectHTML_Arr)
qed

lemma getFlagEmoji_Str_returns: "\<exists>flag. getFlagEmoji h (Str s) = Inr flag"
  by (simp add: getFlagEmoji_Str fromCodePoint_units)

lemma getAllCountries_returns:
  "\<exists>cs. getAllCountries h table = Inr cs \<and> length cs = length table \<and> \<not> list_ex nullish cs"
proof -
  let ?f = "\<lambda>c. case getFlagEmoji h (Str (country_code c)) of
               Inl e \<Rightarrow> Inl e
             | Inr flag \<Rightarrow> Inr (Obj (Str (country_name c)) (Str (country_code c)) (Str flag))"
  have obj: "\<exists>n c f. ?f x = Inr (Obj n c f)" for x
    using getFlagEmoji_Str_returns [of h "country_code x"] by auto
  then have "\<And>x. x \<in> set table \<Longrightarrow> \<exists>y. ?f x = Inr y"
    by metis
  from map_result_returns [of table ?f, OF this]
  obtain cs where cs: "map_result ?f table = Inr cs" "length cs = length table"
    and each: "\<forall>i<length table. ?f (table ! i) = Inr (cs ! i)"
    by blast
  have "\<not> nullish (cs ! i)" if "i < length cs" for i
  proof -
    from obj [of "table ! i"] each that cs(2)
    obtain n c f where "cs ! i = Obj n c f" by auto
    then show ?thesis by simp
  qed
  then have "\<not> list_ex nullish cs"
    by (auto simp: list_ex_iff in_set_conv_nth)
  with cs show ?thesis
    by (simp add: getAllCountries_def)
qed

text \<open>Reading the rendered markup back.\<close>

lemma scan_quoted_value:
  "q \<notin> set v \<Longrightarrow>
   scan_attributes (InQuoted q) names (v @ q # rest) = scan_attributes BeforeName names rest"
  by (induction v) auto

lemma option_start_tag_attributes:
  assumes "quote_free v"
  shows \<open>tag_name (lit ''<option value="'' @ v @ lit ''"'' @ (if b then lit '' selected'' else [])
             @ lit ''>'' @ rest) = lit ''option''
         \<and> tag_attributes (lit ''<option value="'' @ v @ lit ''"''
             @ (if b then lit '' selected'' else []) @ lit ''>'' @ rest)
           = (if b then [lit ''value'', lit ''selected''] else [lit ''value''])\<close>
  using assms
  by (simp add: tag_name_def tag_attributes_def ends_tag_name_def is_space_def lit_def
      ascii_lower_def quote_free_def scan_quoted_value)

lemma carries_selected_start_tag:
  assumes "quote_free v"
  shows \<open>carries_selected (lit ''<option value="'' @ v @ lit ''"''
             @ (if b then lit '' selected'' else []) @ lit ''>'' @ rest) \<longleftrightarrow> b\<close>
  using option_start_tag_attributes [OF assms, of b rest]
  by (simp add: carries_selected_def lit_def)

lemma join_around:
  "i < length xs \<Longrightarrow>
   join sep xs = concat (map (\<lambda>x. x @ sep) (take i xs)) @ xs ! i
                 @ concat (map (\<lambda>x. sep @ x) (drop (Suc i) xs))"
proof (induction sep xs arbitrary: i rule: join.induct)
  case (1 sep)
  then show ?case by simp
next
  case (2 sep x)
  then show ?case by simp
next
  case (3 sep x y ys)
  show ?case
  proof (cases i)
    case 0
    have "join sep (y # ys) = y @ concat (map (\<lambda>x. sep @ x) ys)"
      using "3.IH" [of 0] by simp
    with 0 show ?thesis by simp
  next
    case (Suc j)
    with "3.prems" have "j < length (y # ys)" by simp
    from "3.IH" [OF this] Suc show ?thesis by simp
  qed
qed

lemma select_html_around:
  assumes "i < length opts"
  shows \<open>select_html id_attr name_attr className (join (LF @ lit ''  '') opts) =
     lit ''<select id="'' @ id_attr @ lit ''" name="'' @ name_attr @ lit ''" class="''
     @ className @ lit ''">'' @ [0x0A, 0x20, 0x20]
     @ concat (map (\<lambda>opt. opt @ [0x0A, 0x20, 0x20]) (take i opts)) @ opts ! i
     @ concat (map (\<lambda>opt. [0x0A, 0x20, 0x20] @ opt) (drop (Suc i) opts))
     @ [0x0A] @ lit ''</select>''\<close>
proof -
  have sep: "LF @ lit ''  '' = [0x0A, 0x20, 0x20]"
    by (simp add: LF_def lit_def)
  have eta: "(@) [0x0A, 0x20, 0x20 :: 16 word] = (\<lambda>opt. 0x0A # 0x20 # 0x20 # opt)"
    by (rule ext) simp
  show ?thesis
    unfolding sep join_around [OF assms, of "[0x0A, 0x20, 0x20]"]
    by (simp add: select_html_def LF_def lit_def eta)
qed

lemma filter_length_mono:
  assumes "length xs = length ys"
    and "\<And>i. i < length xs \<Longrightarrow> P (xs ! i) \<Longrightarrow> Q (ys ! i)"
  shows "length (filter P xs) \<le> length (filter Q ys)"
proof -
  have "{i. i < length xs \<and> P (xs ! i)} \<subseteq> {i. i < length ys \<and> Q (ys ! i)}"
    using assms by auto
  moreover have "finite {i. i < length ys \<and> Q (ys ! i)}"
    by simp
  ultimately show ?thesis
    by (simp add: length_filter_conv_card card_mono)
qed

subsection \<open>The claims about the renderer\<close>

text \<open>
  C8. On the empty array and the empty options object the renderer returns the start tag
  \<^verbatim>\<open><select id="country-select" name="country" class="">\<close>, a line holding two spaces and
  the end tag; no \<^verbatim>\<open><option\<close> occurs in it.
\<close>

theorem empty_select_markup:
  \<open>getCountrySelectHTML h (Arr []) (Some empty_options) =
     Inr (lit ''<select id="country-select" name="country" class="">'' @ LF @ lit ''  '' @ LF
          @ lit ''</select>'')
   \<and> \<not> sublist (lit ''<option'')
        (lit ''<select id="country-select" name="country" class="">'' @ LF @ lit ''  '' @ LF
         @ lit ''</select>'')\<close>
  by (simp add: getCountrySelectHTML_Arr or_default_def empty_options_def select_html_def lit_def LF_def sublist_Cons_right)

text \<open>
  C2 as stated fails: with \<^verbatim>\<open>className\<close> the empty string the start tag of the emitted
  \<^verbatim>\<open>select\<close> still has a \<^verbatim>\<open>class\<close> attribute.
\<close>

theorem class_attribute_not_omitted:
  \<open>getCountrySelectHTML sample_host (Arr []) (Some (empty_options\<lparr>opt_className := Some []\<rparr>)) =
     Inr (lit ''<select id="country-select" name="country" class="">'' @ LF @ lit ''  '' @ LF
          @ lit ''</select>'')
   \<and> has_attribute (lit ''class'')
        (lit ''<select id="country-select" name="country" class="">'' @ LF @ lit ''  '' @ LF
         @ lit ''</select>'')\<close>
  by (simp add: getCountrySelectHTML_Arr or_default_def empty_options_def select_html_def lit_def LF_def has_attribute_def start_tag_def sublist_Cons_right)

text \<open>
  C2 (as amended). When \<^verbatim>\<open>className\<close> is absent or the empty string, every markup the
  renderer returns begins with the start tag that carries the identifier, the name and the
  empty attribute \<^verbatim>\<open>class=""\<close>: the attribute is emitted, not omitted.
\<close>

theorem empty_className_keeps_class_attribute:
  fixes options_arg :: "render_options option"
  defines "options \<equiv> or_default options_arg empty_options"
  assumes "opt_className options = None \<or> opt_className options = Some []"
    and "getCountrySelectHTML h countries options_arg = Inr out"
  shows \<open>prefix (lit ''<select id="'' @ or_default (opt_id options) (lit ''country-select'')
                 @ lit ''" name="'' @ or_default (opt_name options) (lit ''country'')
                 @ lit ''" class="">'') out\<close>
proof -
  from assms(3) obtain cs where cs: "countries = Arr cs"
    by (cases countries) (simp_all add: getCountrySelectHTML_not_Arr)
  from assms(2) have cls: "or_default (opt_className options) [] = []"
    by (auto simp: or_default_def)
  from assms(3) cls show ?thesis
    unfolding cs getCountrySelectHTML_Arr options_def [symmetric]
    by (auto simp: select_html_def lit_def split: sum.splits)
qed

text \<open>With no options at all the markup begins with the default start tag.\<close>

theorem empty_className_keeps_class_attribute_witness:
  \<open>(opt_className (or_default None empty_options) = None
      \<or> opt_className (or_default None empty_options) = Some [])
   \<and> getCountrySelectHTML sample_host (Arr []) None =
       Inr (lit ''<select id="country-select" name="country" class="">'' @ LF @ lit ''  '' @ LF
            @ lit ''</select>'')
   \<and> prefix (lit ''<select id="country-select" name="country" class="">'')
        (lit ''<select id="country-select" name="country" class="">'' @ LF @ lit ''  '' @ LF
            @ lit ''</select>'')\<close>
proof -
  have cls: "opt_className (or_default None empty_options) = None
      \<or> opt_className (or_default None empty_options) = Some []"
    by (simp add: or_default_def empty_options_def)
  have out: \<open>getCountrySelectHTML sample_host (Arr []) None =
       Inr (lit ''<select id="country-select" name="country" class="">'' @ LF @ lit ''  '' @ LF
            @ lit ''</select>'')\<close>
    by (simp add: getCountrySelectHTML_Arr or_default_def empty_options_def select_html_def
        lit_def)
  from empty_className_keeps_class_attribute [OF cls out] cls out show ?thesis
    by (simp add: or_default_def empty_options_def lit_def)
qed

text \<open>
  C3 (as amended). The renderer raises the error with the message
  \<^verbatim>\<open>Countries must be an array\<close>, and an \<^verbatim>\<open>Error\<close> at all, exactly when its first argument
  is not an array. Given an array none of whose entries is \<^verbatim>\<open>undefined\<close> or \<^verbatim>\<open>null\<close> (so any
  array of country records) and well-formed options it returns a string; given an array with
  such an entry it raises a TypeError.
\<close>

theorem getCountrySelectHTML_errors:
  "(getCountrySelectHTML h countries options_arg = Inl (Error (lit ''Countries must be an array''))
      \<longleftrightarrow> \<not> isArray countries)
   \<and> ((\<exists>message. getCountrySelectHTML h countries options_arg = Inl (Error message))
      \<longleftrightarrow> \<not> isArray countries)
   \<and> (list_ex nullish cs \<longrightarrow> getCountrySelectHTML h (Arr cs) options_arg = Inl TypeError)
   \<and> (\<not> list_ex nullish cs \<longrightarrow> (\<exists>out. getCountrySelectHTML h (Arr cs) options_arg = Inr out))"
proof -
  have no_error: "getCountrySelectHTML h countries options_arg \<noteq> Inl (Error message)"
    if "isArray countries" for message
  proof -
    from that obtain xs where xs: "countries = Arr xs"
      by (cases countries) simp_all
    show ?thesis
      using getCountrySelectHTML_raises [of xs h options_arg]
        getCountrySelectHTML_returns [of xs h options_arg]
      unfolding xs by (cases "list_ex nullish xs") auto
  qed
  then show ?thesis
    using getCountrySelectHTML_raises [of cs h options_arg]
      getCountrySelectHTML_returns [of cs h options_arg]
    by (auto simp: getCountrySelectHTML_not_Arr)
qed

text \<open>
  C3 as stated fails: \<^verbatim>\<open>[null]\<close> is an array, and on it the renderer raises instead of
  returning a string, because the callback destructures every entry.
\<close>

theorem null_entry_raises_TypeError:
  "isArray (Arr [Null]) \<and> getCountrySelectHTML sample_host (Arr [Null]) None = Inl TypeError"
  by (simp add: getCountrySelectHTML_Arr option_html_def)

text \<open>A bare string, the two sample countries, and an array holding \<^verbatim>\<open>undefined\<close>.\<close>

theorem getCountrySelectHTML_errors_witness:
  "\<not> isArray (Str (lit ''US''))
   \<and> getCountrySelectHTML sample_host (Str (lit ''US'')) None =
       Inl (Error (lit ''Countries must be an array''))
   \<and> \<not> list_ex nullish sample_countries
   \<and> (\<exists>out. getCountrySelectHTML sample_host (Arr sample_countries) None = Inr out)
   \<and> list_ex nullish [Undefined]
   \<and> getCountrySelectHTML sample_host (Arr [Undefined]) None = Inl TypeError"
  using getCountrySelectHTML_errors [of sample_host "Str (lit ''US'')" None sample_countries]
    getCountrySelectHTML_errors [of sample_host "Str (lit ''US'')" None "[Undefined]"]
  by (simp add: sample_countries_def)



text \<open>
  C10. Every entry whose code equals \<^verbatim>\<open>selectedCode\<close> has its option in the one returned
  \<^verbatim>\<open>select\<close>, at the entry's place, with the start tag \<^verbatim>\<open><option value="CODE" selected>\<close>, so
  (the code holding no double quote) carrying the \<^verbatim>\<open>selected\<close> attribute; there are at least
  as many selected options as matching entries. The renderer does not stop at the first
  match: a code that occurs twice yields two selected options.
\<close>

theorem duplicate_codes_all_selected:
  fixes options_arg :: "render_options option"
  defines "options \<equiv> or_default options_arg empty_options"
  defines "selectedCode \<equiv> or_default (opt_selectedCode options) []"
  assumes "\<not> list_ex nullish countries"
  shows \<open>\<exists>opts out.
           map_result
             (option_html h selectedCode (or_default (opt_useImageFlags options) True)
                (or_default (opt_flagWidth options) 40)) countries = Inr opts
         \<and> length opts = length countries
         \<and> getCountrySelectHTML h (Arr countries) options_arg = Inr out
         \<and> (\<forall>i<length countries.
               get_code (countries ! i) = Str selectedCode \<longrightarrow>
                 out = lit ''<select id="'' @ or_default (opt_id options) (lit ''country-select'')
                       @ lit ''" name="'' @ or_default (opt_name options) (lit ''country'')
                       @ lit ''" class="'' @ or_default (opt_className options) [] @ lit ''">''
                       @ [0x0A, 0x20, 0x20]
                       @ concat (map (\<lambda>opt. opt @ [0x0A, 0x20, 0x20]) (take i opts)) @ opts ! i
                       @ concat (map (\<lambda>opt. [0x0A, 0x20, 0x20] @ opt) (drop (Suc i) opts))
                       @ [0x0A] @ lit ''</select>''
               \<and> prefix (lit ''<option value="'' @ selectedCode @ lit ''" selected>'') (opts ! i)
               \<and> (quote_free selectedCode \<longrightarrow> carries_selected (opts ! i)))
         \<and> (quote_free selectedCode \<longrightarrow>
               length (filter (\<lambda>c. get_code c = Str selectedCode) countries)
                 \<le> length (filter carries_selected opts))\<close>
proof -
  let ?f = "option_html h selectedCode (or_default (opt_useImageFlags options) True)
              (or_default (opt_flagWidth options) 40)"
  from options_html_returns [OF assms(3)]
  obtain opts where opts: "map_result ?f countries = Inr opts" "length opts = length countries"
    and each: "\<forall>i<length countries. ?f (countries ! i) = Inr (opts ! i)"
    by blast
  let ?out = "select_html (or_default (opt_id options) (lit ''country-select''))
                (or_default (opt_name options) (lit ''country''))
                (or_default (opt_className options) []) (join (LF @ lit ''  '') opts)"
  have out: "getCountrySelectHTML h (Arr countries) options_arg = Inr ?out"
    using opts(1) by (simp add: getCountrySelectHTML_Arr options_def selectedCode_def)
  have matching: \<open>?out = lit ''<select id="'' @ or_default (opt_id options) (lit ''country-select'')
                       @ lit ''" name="'' @ or_default (opt_name options) (lit ''country'')
                       @ lit ''" class="'' @ or_default (opt_className options) [] @ lit ''">''
                       @ [0x0A, 0x20, 0x20]
                       @ concat (map (\<lambda>opt. opt @ [0x0A, 0x20, 0x20]) (take i opts)) @ opts ! i
                       @ concat (map (\<lambda>opt. [0x0A, 0x20, 0x20] @ opt) (drop (Suc i) opts))
                       @ [0x0A] @ lit ''</select>''
               \<and> prefix (lit ''<option value="'' @ selectedCode @ lit ''" selected>'') (opts ! i)
               \<and> (quote_free selectedCode \<longrightarrow> carries_selected (opts ! i))\<close>
    if i: "i < length countries" and code: "get_code (countries ! i) = Str selectedCode" for i
  proof -
    from i assms(3) have "\<not> nullish (countries ! i)"
      by (auto simp: list_ex_iff)
    from option_html_returns [OF this, of h selectedCode
        "or_default (opt_useImageFlags options) True" "or_default (opt_flagWidth options) 40"]
      each i code
    obtain rest where opt: \<open>opts ! i =
        lit ''<option value="'' @ selectedCode @ lit ''"'' @ (if True then lit '' selected'' else [])
        @ lit ''>'' @ rest\<close>
      by auto
    have place: \<open>?out = lit ''<select id="'' @ or_default (opt_id options) (lit ''country-select'')
                     @ lit ''" name="'' @ or_default (opt_name options) (lit ''country'')
                     @ lit ''" class="'' @ or_default (opt_className options) [] @ lit ''">''
                     @ [0x0A, 0x20, 0x20]
                     @ concat (map (\<lambda>opt. opt @ [0x0A, 0x20, 0x20]) (take i opts)) @ opts ! i
                     @ concat (map (\<lambda>opt. [0x0A, 0x20, 0x20] @ opt) (drop (Suc i) opts))
                     @ [0x0A] @ lit ''</select>''\<close>
      using i opts(2) by (simp only: select_html_around)
    have start: \<open>prefix (lit ''<option value="'' @ selectedCode @ lit ''" selected>'') (opts ! i)\<close>
      unfolding opt by (simp add: lit_def)
    have attr: "carries_selected (opts ! i)" if "quote_free selectedCode"
      unfolding opt by (simp only: carries_selected_start_tag [OF that])
    from place start attr show ?thesis
      by blast
  qed
  have count: "length (filter (\<lambda>c. get_code c = Str selectedCode) countries)
      \<le> length (filter carries_selected opts)" if "quote_free selectedCode"
  proof (rule filter_length_mono)
    show "length countries = length opts"
      using opts(2) by simp
    fix i assume "i < length countries" "get_code (countries ! i) = Str selectedCode"
    from matching [OF this] that show "carries_selected (opts ! i)"
      by blast
  qed
  from opts out matching count show ?thesis
    by blast
qed

text \<open>
  In the doubled sample list the code \<^verbatim>\<open>AF\<close> is at positions 0 and 2; both options are in
  the output and both are selected.
\<close>

theorem duplicate_codes_all_selected_witness:
  "\<not> list_ex nullish duplicated_countries
   \<and> quote_free (lit ''AF'')
   \<and> get_code (duplicated_countries ! 0) = Str (lit ''AF'')
   \<and> get_code (duplicated_countries ! 2) = Str (lit ''AF'')
   \<and> (\<exists>opts out.
         map_result (option_html sample_host (lit ''AF'') True 40) duplicated_countries = Inr opts
       \<and> getCountrySelectHTML sample_host (Arr duplicated_countries)
           (Some (empty_options\<lparr>opt_selectedCode := Some (lit ''AF'')\<rparr>)) = Inr out
       \<and> sublist (opts ! 0) out \<and> sublist (opts ! 2) out
       \<and> carries_selected (opts ! 0) \<and> carries_selected (opts ! 2)
       \<and> 2 \<le> length (filter carries_selected opts))"
proof -
  have entries: "\<not> list_ex nullish duplicated_countries"
    by (simp add: duplicated_countries_def sample_countries_def)
  have free: "quote_free (lit ''AF'')"
    by (simp add: quote_free_def lit_def)
  have first: "get_code (duplicated_countries ! 0) = Str (lit ''AF'')"
    and third: "get_code (duplicated_countries ! 2) = Str (lit ''AF'')"
    by (simp_all add: duplicated_countries_def sample_countries_def)
  have at0: "0 < length duplicated_countries" and at2: "2 < length duplicated_countries"
    by (simp_all add: duplicated_countries_def sample_countries_def)
  have matches: "length (filter (\<lambda>c. get_code c = Str (lit ''AF'')) duplicated_countries) = 2"
    by (simp add: duplicated_countries_def sample_countries_def lit_def)
  have inside: "sublist x out" if "out = a @ b @ c @ x @ d" for x out a b c d :: jsstring
    unfolding that sublist_def by (metis append.assoc)
  from duplicate_codes_all_selected [OF entries, of sample_host
      "Some (empty_options\<lparr>opt_selectedCode := Some (lit ''AF'')\<rparr>)"]
  obtain opts out where
    opts: "map_result (option_html sample_host (lit ''AF'') True 40) duplicated_countries
             = Inr opts"
    and out: "getCountrySelectHTML sample_host (Arr duplicated_countries)
           (Some (empty_options\<lparr>opt_selectedCode := Some (lit ''AF'')\<rparr>)) = Inr out"
    and sel: \<open>\<forall>i<length duplicated_countries.
        get_code (duplicated_countries ! i) = Str (lit ''AF'') \<longrightarrow>
          out = lit ''<select id="country-select" name="country" class="">'' @ [0x0A, 0x20, 0x20]
                @ concat (map (\<lambda>opt. opt @ [0x0A, 0x20, 0x20]) (take i opts)) @ opts ! i
                @ concat (map (\<lambda>opt. [0x0A, 0x20, 0x20] @ opt) (drop (Suc i) opts))
                @ [0x0A] @ lit ''</select>''
          \<and> (quote_free (lit ''AF'') \<longrightarrow> carries_selected (opts ! i))\<close>
    and count: "quote_free (lit ''AF'') \<longrightarrow>
        length (filter (\<lambda>c. get_code c = Str (lit ''AF'')) duplicated_countries)
          \<le> length (filter carries_selected opts)"
    by (auto simp: or_default_def empty_options_def lit_def)
  from sel [rule_format, OF at0 first] sel [rule_format, OF at2 third] free
  have "carries_selected (opts ! 0)" "carries_selected (opts ! 2)"
    by blast+
  moreover have "sublist (opts ! 0) out" "sublist (opts ! 2) out"
    using sel [rule_format, OF at0 first] sel [rule_format, OF at2 third]
    by (blast intro: inside)+
  moreover from count free matches have "2 \<le> length (filter carries_selected opts)"
    by simp
  ultimately show ?thesis
    using entries free first third opts out by blast
qed

text \<open>
  C9. For every options argument and every country table, \<^verbatim>\<open>getCountrySelect\<close> returns what
  the renderer returns on \<^verbatim>\<open>getAllCountries()\<close> and the same options, and that is a string.
\<close>

theorem getCountrySelect_refines_spec:
  "getCountrySelect h table options_arg = spec_getCountrySelect h table options_arg
   \<and> (\<exists>all_countries out.
         getAllCountries h table = Inr all_countries
       \<and> getCountrySelectHTML h (Arr all_countries) options_arg = Inr out
       \<and> getCountrySelect h table options_arg = Inr out)"
proof -
  have same: "getCountrySelectHTML h cs (Some (or_default options_arg empty_options))
      = getCountrySelectHTML h cs options_arg" for cs
    by (cases options_arg) (simp_all add: or_default_def getCountrySelectHTML_default_options)
  have eq: "getCountrySelect h table options_arg = spec_getCountrySelect h table options_arg"
    by (simp add: getCountrySelect_def spec_getCountrySelect_def Let_def same split: sum.splits)
  from getAllCountries_returns [of h table]
  obtain cs where cs: "getAllCountries h table = Inr cs" "\<not> list_ex nullish cs"
    by blast
  from getCountrySelectHTML_returns [OF cs(2), of h options_arg]
  obtain out where out: "getCountrySelectHTML h (Arr cs) options_arg = Inr out"
    by blast
  from cs(1) out have "getCountrySelect h table options_arg = Inr out"
    by (simp add: eq spec_getCountrySelect_def)
  with eq cs(1) out show ?thesis
    by blast
qed

end
